theory Spec2Isabelle
  imports Complex_Main
begin

section \<open>JavaScript values\<close>

text \<open>
  The adapter in \<^verbatim>\<open>src/index.ts\<close> moves JavaScript values between a caller and the
  Airweave SDK client. A JavaScript number is a double: a finite value (every finite
  double is a rational), \<^verbatim>\<open>NaN\<close> or one of the two infinities. The adapter never
  computes with numbers; it only hands them on, and the input schema compares them
  with 1 and 100. A string is its list of code units, so \<open>length\<close> is the
  \<^verbatim>\<open>.length\<close> that the schema bounds.
\<close>

datatype js_number = Num rat | NaN | PosInfinity | NegInfinity

datatype js_value =
    JUndefined
  | JNull
  | JBoolean bool
  | JNumber js_number
  | JString string
  | JArray "js_value list"
  | JObject "(string \<times> js_value) list"

type_synonym js_object = "(string \<times> js_value) list"

text \<open>Reading a property: a key the object does not have reads as \<^verbatim>\<open>undefined\<close>.\<close>

definition get_prop :: "js_object \<Rightarrow> string \<Rightarrow> js_value" where
  "get_prop ps k = (case map_of ps k of None \<Rightarrow> JUndefined | Some v \<Rightarrow> v)"

text \<open>The presence check \<^verbatim>\<open>k in obj\<close>: true also for a key set to \<^verbatim>\<open>undefined\<close>.\<close>

definition has_key :: "js_object \<Rightarrow> string \<Rightarrow> bool" where
  "has_key ps k = (map_of ps k \<noteq> None)"

text \<open>
  An optional field of type \<^verbatim>\<open>string | undefined\<close> is a \<open>string option\<close>, with \<open>None\<close>
  for \<^verbatim>\<open>undefined\<close>. Such a value is falsy when it is \<^verbatim>\<open>undefined\<close> or the empty
  string.
\<close>

fun truthy :: "string option \<Rightarrow> bool" where
  "truthy None = False"
| "truthy (Some s) = (s \<noteq> [])"

text \<open>
  \<^verbatim>\<open>a ?? b\<close> and the destructuring default \<^verbatim>\<open>{ a = b }\<close> both take \<^verbatim>\<open>b\<close> exactly
  when \<^verbatim>\<open>a\<close> is \<^verbatim>\<open>undefined\<close>; an empty string or a zero stays.
\<close>

fun coalesce :: "'a option \<Rightarrow> 'a option \<Rightarrow> 'a option" where
  "coalesce (Some a) b = Some a"
| "coalesce None b = b"

fun or_default :: "'a option \<Rightarrow> 'a \<Rightarrow> 'a" where
  "or_default (Some a) d = a"
| "or_default None d = d"

section \<open>The data of the adapter\<close>

text \<open>\<^verbatim>\<open>interface AirweaveSearchOptions\<close>: every field is optional.\<close>

record AirweaveSearchOptions =
  apiKey :: "string option"
  baseUrl :: "string option"
  defaultCollection :: "string option"
  defaultLimit :: "js_number option"
  generateAnswer :: "bool option"
  expandQuery :: "bool option"
  rerank :: "bool option"

text \<open>The empty object \<^verbatim>\<open>{}\<close>, the default of the parameter \<^verbatim>\<open>options\<close>.\<close>

definition no_options :: AirweaveSearchOptions where
  "no_options = \<lparr>apiKey = None, baseUrl = None, defaultCollection = None,
     defaultLimit = None, generateAnswer = None, expandQuery = None, rerank = None\<rparr>"

text \<open>The constants bound by the destructuring at the head of \<^verbatim>\<open>airweaveSearch\<close>.\<close>

record Config =
  cfg_apiKey :: "string option"
  cfg_baseUrl :: "string option"
  cfg_defaultCollection :: "string option"
  cfg_defaultLimit :: js_number
  cfg_generateAnswer :: bool
  cfg_expandQuery :: bool
  cfg_rerank :: bool

text \<open>The object given to \<^verbatim>\<open>new AirweaveSDKClient\<close>.\<close>

record ClientOptions =
  client_apiKey :: string
  client_baseUrl :: "string option"
  frameworkName :: string
  frameworkVersion :: string

text \<open>The second argument of \<^verbatim>\<open>client.collections.search\<close>.\<close>

record SearchRequest =
  req_query :: string
  req_limit :: js_number
  generate_answer :: bool
  expand_query :: bool
  req_rerank :: bool

text \<open>What the search returns: the fields the adapter reads.\<close>

record SearchResponse =
  results :: "js_value list"
  completion :: "string option"

text \<open>The parsed argument of \<^verbatim>\<open>execute\<close>: \<^verbatim>\<open>{ query, collection, limit }\<close>.\<close>

record SearchInput =
  query :: string
  collection :: "string option"
  limit :: "js_number option"

section \<open>The remote service\<close>

text \<open>
  The SDK client is an external collaborator. One outbound search is recorded as a
  \<open>call\<close>: the client that issued it, the collection identifier and the request. The
  service is a parameter of the model: given the calls made so far and the present
  call, it answers with a response or rejects with a failure of some type \<open>'e\<close>.
  \<open>collections_search\<close> is the stubbed client: it appends the call to the trace and
  returns the service's answer.
\<close>

record call =
  call_client :: ClientOptions
  call_collection :: string
  call_request :: SearchRequest

type_synonym 'e remote = "call list \<Rightarrow> call \<Rightarrow> 'e + SearchResponse"

definition collections_search ::
  "'e remote \<Rightarrow> ClientOptions \<Rightarrow> string \<Rightarrow> SearchRequest \<Rightarrow> call list
     \<Rightarrow> ('e + SearchResponse) \<times> call list" where
  "collections_search remote client collectionId request trace =
     (let c = \<lparr>call_client = client, call_collection = collectionId,
                call_request = request\<rparr>
      in (remote trace c, trace @ [c]))"

text \<open>
  What a call of the adapter can throw: an \<^verbatim>\<open>Error\<close> object that the adapter itself
  builds with a message, or the failure of the awaited search, which no
  \<^verbatim>\<open>try\<close> catches and which reaches the caller as it is.
\<close>

datatype 'e thrown = Error string | Remote 'e

section \<open>The input schema\<close>

text \<open>
  The schema is built from the combinators of the zod library. Each becomes a parser
  from a JavaScript value to a list of issue codes or a parsed value:
  \<^verbatim>\<open>z.string()\<close> and \<^verbatim>\<open>z.number()\<close> check the type (\<^verbatim>\<open>NaN\<close> is not a number for
  zod), \<^verbatim>\<open>.min\<close> and \<^verbatim>\<open>.max\<close> are inclusive bounds on the length of a string or on
  the value of a number, \<^verbatim>\<open>.optional()\<close> lets \<^verbatim>\<open>undefined\<close> through, and
  \<^verbatim>\<open>.describe\<close> only attaches text.
\<close>

datatype issue_code = invalid_type | too_small | too_big

type_synonym 'a zod = "js_value \<Rightarrow> issue_code list + 'a"

definition z_string :: "string zod" where
  "z_string v = (case v of JString s \<Rightarrow> Inr s | _ \<Rightarrow> Inl [invalid_type])"

definition z_number :: "js_number zod" where
  "z_number v = (case v of
       JNumber NaN \<Rightarrow> Inl [invalid_type]
     | JNumber n \<Rightarrow> Inr n
     | _ \<Rightarrow> Inl [invalid_type])"

fun number_ge :: "js_number \<Rightarrow> rat \<Rightarrow> bool" where
  "number_ge (Num r) b = (b \<le> r)"
| "number_ge NaN b = False"
| "number_ge PosInfinity b = True"
| "number_ge NegInfinity b = False"

fun number_le :: "js_number \<Rightarrow> rat \<Rightarrow> bool" where
  "number_le (Num r) b = (r \<le> b)"
| "number_le NaN b = False"
| "number_le PosInfinity b = False"
| "number_le NegInfinity b = True"

definition string_min :: "nat \<Rightarrow> string zod \<Rightarrow> string zod" where
  "string_min n z v = (case z v of
       Inl issues \<Rightarrow> Inl issues
     | Inr s \<Rightarrow> if length s < n then Inl [too_small] else Inr s)"

definition string_max :: "nat \<Rightarrow> string zod \<Rightarrow> string zod" where
  "string_max n z v = (case z v of
       Inl issues \<Rightarrow> Inl issues
     | Inr s \<Rightarrow> if n < length s then Inl [too_big] else Inr s)"

definition number_min :: "rat \<Rightarrow> js_number zod \<Rightarrow> js_number zod" where
  "number_min b z v = (case z v of
       Inl issues \<Rightarrow> Inl issues
     | Inr x \<Rightarrow> if number_ge x b then Inr x else Inl [too_small])"

definition number_max :: "rat \<Rightarrow> js_number zod \<Rightarrow> js_number zod" where
  "number_max b z v = (case z v of
       Inl issues \<Rightarrow> Inl issues
     | Inr x \<Rightarrow> if number_le x b then Inr x else Inl [too_big])"

definition optional :: "'a zod \<Rightarrow> 'a option zod" where
  "optional z v = (case v of
       JUndefined \<Rightarrow> Inr None
     | _ \<Rightarrow> (case z v of Inl issues \<Rightarrow> Inl issues | Inr a \<Rightarrow> Inr (Some a)))"

definition describe :: "string \<Rightarrow> 'a zod \<Rightarrow> 'a zod" where
  "describe text z = z"

text \<open>The issues of one field of an object, each under the field's key.\<close>

definition field_issues :: "string \<Rightarrow> issue_code list + 'a \<Rightarrow> (string \<times> issue_code) list" where
  "field_issues k r = (case r of Inl issues \<Rightarrow> map (\<lambda>i. (k, i)) issues | Inr _ \<Rightarrow> [])"

text \<open>
  \<^verbatim>\<open>inputSchema: z.object({ query: ..., collection: ..., limit: ... })\<close>. An
  object schema rejects what is not a plain object, parses each declared key from the
  property of that name, collects the issues of all fields, and drops every other key.
\<close>

definition inputSchema :: "js_value \<Rightarrow> (string \<times> issue_code) list + SearchInput" where
  "inputSchema raw = (case raw of
       JObject ps \<Rightarrow>
         (let q = describe ''The search query to find relevant documents and data''
                    (string_max 1000 (string_min 1 z_string)) (get_prop ps ''query'');
              c = describe ''The collection readable ID to search. Uses default if not specified.''
                    (optional z_string) (get_prop ps ''collection'');
              l = describe ''Maximum number of results to return''
                    (optional (number_max 100 (number_min 1 z_number))) (get_prop ps ''limit'')
          in case (q, c, l) of
               (Inr q', Inr c', Inr l') \<Rightarrow> Inr \<lparr>query = q', collection = c', limit = l'\<rparr>
             | _ \<Rightarrow> Inl (field_issues ''query'' q @ field_issues ''collection'' c
                          @ field_issues ''limit'' l))
     | _ \<Rightarrow> Inl [([], invalid_type)])"

section \<open>The factory and the execution function\<close>

text \<open>
  The destructuring with defaults. \<open>env\<close> is \<^verbatim>\<open>process.env.AIRWEAVE_API_KEY\<close>, read
  only when the option \<^verbatim>\<open>apiKey\<close> is \<^verbatim>\<open>undefined\<close>.
\<close>

definition destructure :: "string option \<Rightarrow> AirweaveSearchOptions \<Rightarrow> Config" where
  "destructure env options =
     \<lparr>cfg_apiKey = coalesce (apiKey options) env,
      cfg_baseUrl = baseUrl options,
      cfg_defaultCollection = defaultCollection options,
      cfg_defaultLimit = or_default (defaultLimit options) (Num 10),
      cfg_generateAnswer = or_default (generateAnswer options) False,
      cfg_expandQuery = or_default (expandQuery options) True,
      cfg_rerank = or_default (rerank options) True\<rparr>"

text \<open>
  \<^verbatim>\<open>...(response.completion && { answer: response.completion })\<close>: a falsy completion
  is spread itself and adds no key; otherwise the object with the one key is spread.
\<close>

definition spread_answer :: "string option \<Rightarrow> js_object" where
  "spread_answer c = (case c of
       None \<Rightarrow> []
     | Some s \<Rightarrow> if truthy (Some s) then [(''answer'', JString s)] else [])"

text \<open>
  The body of \<^verbatim>\<open>execute\<close>. The client and the destructured constants are the
  variables the closure captures; the trace of outbound calls is passed through.
\<close>

definition execute ::
  "'e remote \<Rightarrow> ClientOptions \<Rightarrow> Config \<Rightarrow> SearchInput \<Rightarrow> call list
     \<Rightarrow> ('e thrown + js_object) \<times> call list" where
  "execute remote client cfg input trace =
     (let collectionId = coalesce (collection input) (cfg_defaultCollection cfg)
      in case (if truthy collectionId then collectionId else None) of
           None \<Rightarrow>
             (Inl (Error ''Collection is required. Pass collection in the query or set defaultCollection option.''),
              trace)
         | Some cid \<Rightarrow>
             (case collections_search remote client cid
                     \<lparr>req_query = query input,
                      req_limit = or_default (limit input) (cfg_defaultLimit cfg),
                      generate_answer = cfg_generateAnswer cfg,
                      expand_query = cfg_expandQuery cfg,
                      req_rerank = cfg_rerank cfg\<rparr> trace of
                (Inl e, trace') \<Rightarrow> (Inl (Remote e), trace')
              | (Inr response, trace') \<Rightarrow>
                  (Inr ((''results'', JArray (results response))
                          # spread_answer (completion response)),
                   trace')))"

text \<open>The object that \<^verbatim>\<open>tool({ description, inputSchema, execute })\<close> returns.\<close>

record 'e tool =
  tool_description :: string
  tool_inputSchema :: "js_value \<Rightarrow> (string \<times> issue_code) list + SearchInput"
  tool_execute :: "SearchInput \<Rightarrow> call list \<Rightarrow> ('e thrown + js_object) \<times> call list"

text \<open>
  \<^verbatim>\<open>airweaveSearch(options = {})\<close>. The argument is \<open>None\<close> when the caller passes
  none. The function throws before it builds the client when no key resolves.
\<close>

definition airweaveSearch ::
  "'e remote \<Rightarrow> string option \<Rightarrow> AirweaveSearchOptions option \<Rightarrow> 'e thrown + 'e tool" where
  "airweaveSearch remote env arg =
     (let options = or_default arg no_options;
          cfg = destructure env options
      in case (if truthy (cfg_apiKey cfg) then cfg_apiKey cfg else None) of
           None \<Rightarrow>
             Inl (Error ''Airweave API key is required. Set AIRWEAVE_API_KEY environment variable or pass apiKey option.'')
         | Some key \<Rightarrow>
             (let client = \<lparr>client_apiKey = key,
                            client_baseUrl = (if truthy (cfg_baseUrl cfg) then cfg_baseUrl cfg else None),
                            frameworkName = ''vercel-ai-sdk'',
                            frameworkVersion = ''1.0.0''\<rparr>
              in Inr \<lparr>tool_description =
                        ''Search across your synced data sources (Notion, Slack, Google Drive, databases, 100+ apps) using Airweave semantic search.'',
                      tool_inputSchema = inputSchema,
                      tool_execute = execute remote client cfg\<rparr>))"

text \<open>
  How the agent framework calls a tool: the arguments that the language model wrote
  are parsed with the tool's schema, and \<^verbatim>\<open>execute\<close> runs on the parsed value only.
\<close>

datatype 'e outcome =
    InvalidInput "(string \<times> issue_code) list"
  | Thrown "'e thrown"
  | Output js_object

definition call_tool :: "'e tool \<Rightarrow> js_value \<Rightarrow> call list \<Rightarrow> 'e outcome \<times> call list" where
  "call_tool t raw trace = (case tool_inputSchema t raw of
       Inl issues \<Rightarrow> (InvalidInput issues, trace)
     | Inr input \<Rightarrow>
         (case tool_execute t input trace of
            (Inl err, trace') \<Rightarrow> (Thrown err, trace')
          | (Inr out, trace') \<Rightarrow> (Output out, trace')))"

section \<open>Stubs of the remote service\<close>

text \<open>
  Two services used for concrete runs: one answers every call with the same response,
  the other rejects the first call it sees and would answer any later one.
\<close>

definition respond :: "SearchResponse \<Rightarrow> 'e remote" where
  "respond r trace c = Inr r"

definition flaky :: "'e \<Rightarrow> SearchResponse \<Rightarrow> 'e remote" where
  "flaky e r trace c = (if trace = [] then Inl e else Inr r)"

section \<open>The input contract in words\<close>

text \<open>
  The contract of a tool invocation as the specification words it: the argument is an
  object whose \<open>query\<close> is a string of 1 to 1000 code units, whose \<open>collection\<close> is
  absent or a string, and whose \<open>limit\<close> is absent or an integer from 1 to 100
  (\<open>spec_valid_input\<close>). \<open>valid_input\<close> is the same contract without the demand
  that the limit be an integer.
\<close>

definition is_integer :: "rat \<Rightarrow> bool" where
  "is_integer r = (of_int \<lfloor>r\<rfloor> = r)"

definition valid_query :: "js_value \<Rightarrow> bool" where
  "valid_query v = (case v of JString s \<Rightarrow> 1 \<le> length s \<and> length s \<le> 1000 | _ \<Rightarrow> False)"

definition valid_collection :: "js_value \<Rightarrow> bool" where
  "valid_collection v = (case v of JUndefined \<Rightarrow> True | JString s \<Rightarrow> True | _ \<Rightarrow> False)"

definition spec_valid_limit :: "js_value \<Rightarrow> bool" where
  "spec_valid_limit v = (case v of
       JUndefined \<Rightarrow> True
     | JNumber (Num r) \<Rightarrow> is_integer r \<and> 1 \<le> r \<and> r \<le> 100
     | _ \<Rightarrow> False)"

definition spec_valid_input :: "js_value \<Rightarrow> bool" where
  "spec_valid_input raw = (case raw of
       JObject ps \<Rightarrow> valid_query (get_prop ps ''query'')
                  \<and> valid_collection (get_prop ps ''collection'')
                  \<and> spec_valid_limit (get_prop ps ''limit'')
     | _ \<Rightarrow> False)"

definition valid_limit :: "js_value \<Rightarrow> bool" where
  "valid_limit v = (case v of
       JUndefined \<Rightarrow> True
     | JNumber (Num r) \<Rightarrow> 1 \<le> r \<and> r \<le> 100
     | _ \<Rightarrow> False)"

definition valid_input :: "js_value \<Rightarrow> bool" where
  "valid_input raw = (case raw of
       JObject ps \<Rightarrow> valid_query (get_prop ps ''query'')
                  \<and> valid_collection (get_prop ps ''collection'')
                  \<and> valid_limit (get_prop ps ''limit'')
     | _ \<Rightarrow> False)"

section \<open>The values of the end-to-end scenario\<close>

text \<open>
  The result item \<^verbatim>\<open>{id: "a1", score: 0.9, payload: {name: "Doc"}}\<close> and the search
  that the scenario expects on the wire, issued by a client bound to a given key. The
  score stands for the number that the literal 0.9 denotes; the adapter hands it on
  and never reads it.
\<close>

definition scenario_item :: js_value where
  "scenario_item = JObject [(''id'', JString ''a1''), (''score'', JNumber (Num (9/10))),
                            (''payload'', JObject [(''name'', JString ''Doc'')])]"

definition scenario_call :: "string \<Rightarrow> call" where
  "scenario_call key =
     \<lparr>call_client = \<lparr>client_apiKey = key, client_baseUrl = None,
                      frameworkName = ''vercel-ai-sdk'', frameworkVersion = ''1.0.0''\<rparr>,
      call_collection = ''kb1'',
      call_request = \<lparr>req_query = ''budget'', req_limit = Num 10, generate_answer = False,
                       expand_query = True, req_rerank = True\<rparr>\<rparr>"

section \<open>What a built tool does\<close>

text \<open>
  A tool that \<open>airweaveSearch\<close> returns runs \<open>execute\<close> with the client and the
  constants of its construction, and carries the schema above.
\<close>

lemma airweaveSearch_Inr:
  assumes "airweaveSearch remote env arg = Inr t"
  shows "\<exists>client. tool_execute t = execute remote client (destructure env (or_default arg no_options))
           \<and> tool_inputSchema t = inputSchema
           \<and> coalesce (apiKey (or_default arg no_options)) env = Some (client_apiKey client)
           \<and> client_apiKey client \<noteq> []"
  using assms
  by (cases "coalesce (apiKey (or_default arg no_options)) env")
     (auto simp: airweaveSearch_def Let_def destructure_def split: if_splits)

lemma execute_no_collection:
  assumes "\<not> truthy (coalesce (collection input) (cfg_defaultCollection cfg))"
  shows "execute remote client cfg input trace =
           (Inl (Error ''Collection is required. Pass collection in the query or set defaultCollection option.''), trace)"
  using assms by (simp add: execute_def Let_def)

lemma execute_collection:
  assumes "coalesce (collection input) (cfg_defaultCollection cfg) = Some cid" and "cid \<noteq> []"
  shows "execute remote client cfg input trace =
           (let c = \<lparr>call_client = client, call_collection = cid,
                call_request = \<lparr>req_query = query input,
                      req_limit = or_default (limit input) (cfg_defaultLimit cfg),
                      generate_answer = cfg_generateAnswer cfg,
                      expand_query = cfg_expandQuery cfg,
                      req_rerank = cfg_rerank cfg\<rparr>\<rparr>
            in (case remote trace c of
                  Inl e \<Rightarrow> Inl (Remote e)
                | Inr response \<Rightarrow> Inr ((''results'', JArray (results response))
                          # spread_answer (completion response)),
                trace @ [c]))"
  using assms by (simp add: execute_def Let_def collections_search_def split: sum.splits)

lemma truthy_cases:
  obtains (falsy) "\<not> truthy x" | (str) s where "x = Some s" "s \<noteq> []"
  by (cases x) auto

lemma spread_answer_simps:
  "spread_answer None = []"
  "spread_answer (Some []) = []"
  "s \<noteq> [] \<Longrightarrow> spread_answer (Some s) = [(''answer'', JString s)]"
  by (simp_all add: spread_answer_def)

lemma tool_execute_cases [consumes 1, case_names no_collection searched]:
  assumes "airweaveSearch remote env arg = Inr t"
  obtains
    "\<not> truthy (coalesce (collection input) (defaultCollection (or_default arg no_options)))"
    "tool_execute t input trace =
       (Inl (Error ''Collection is required. Pass collection in the query or set defaultCollection option.''), trace)"
  | client cid c where
    "coalesce (collection input) (defaultCollection (or_default arg no_options)) = Some cid"
    "cid \<noteq> []"
    "coalesce (apiKey (or_default arg no_options)) env = Some (client_apiKey client)"
    "c = \<lparr>call_client = client, call_collection = cid,
          call_request = \<lparr>req_query = query input,
             req_limit = or_default (limit input) (or_default (defaultLimit (or_default arg no_options)) (Num 10)),
             generate_answer = or_default (generateAnswer (or_default arg no_options)) False,
             expand_query = or_default (expandQuery (or_default arg no_options)) True,
             req_rerank = or_default (rerank (or_default arg no_options)) True\<rparr>\<rparr>"
    "tool_execute t input trace =
       (case remote trace c of
          Inl e \<Rightarrow> Inl (Remote e)
        | Inr response \<Rightarrow> Inr ((''results'', JArray (results response))
                          # spread_answer (completion response)),
        trace @ [c])"
proof -
  let ?opts = "or_default arg no_options"
  from assms obtain client where
    ex: "tool_execute t = execute remote client (destructure env ?opts)"
    and key: "coalesce (apiKey ?opts) env = Some (client_apiKey client)"
    using airweaveSearch_Inr by blast
  have dc: "cfg_defaultCollection (destructure env ?opts) = defaultCollection ?opts"
    by (simp add: destructure_def)
  show thesis
  proof (cases "coalesce (collection input) (defaultCollection ?opts)" rule: truthy_cases)
    case falsy
    then have "tool_execute t input trace =
       (Inl (Error ''Collection is required. Pass collection in the query or set defaultCollection option.''), trace)"
      using ex dc by (simp add: execute_no_collection)
    with falsy that(1) show thesis by blast
  next
    case (str cid)
    then have "coalesce (collection input) (cfg_defaultCollection (destructure env ?opts)) = Some cid"
      using dc by simp
    from execute_collection [OF this str(2), of remote client trace]
    have "tool_execute t input trace =
       (case remote trace \<lparr>call_client = client, call_collection = cid,
          call_request = \<lparr>req_query = query input,
             req_limit = or_default (limit input) (or_default (defaultLimit ?opts) (Num 10)),
             generate_answer = or_default (generateAnswer ?opts) False,
             expand_query = or_default (expandQuery ?opts) True,
             req_rerank = or_default (rerank ?opts) True\<rparr>\<rparr> of
          Inl e \<Rightarrow> Inl (Remote e)
        | Inr response \<Rightarrow> Inr ((''results'', JArray (results response))
                          # spread_answer (completion response)),
        trace @ [\<lparr>call_client = client, call_collection = cid,
          call_request = \<lparr>req_query = query input,
             req_limit = or_default (limit input) (or_default (defaultLimit ?opts) (Num 10)),
             generate_answer = or_default (generateAnswer ?opts) False,
             expand_query = or_default (expandQuery ?opts) True,
             req_rerank = or_default (rerank ?opts) True\<rparr>\<rparr>])"
      using ex by (simp add: Let_def destructure_def)
    with str key that(2) show thesis by blast
  qed
qed

lemma call_tool_trace:
  assumes "tool_inputSchema t = inputSchema"
  shows "snd (call_tool t raw trace) =
           (case inputSchema raw of Inl issues \<Rightarrow> trace
            | Inr input \<Rightarrow> snd (tool_execute t input trace))"
  using assms by (simp add: call_tool_def split: sum.splits prod.splits)

section \<open>The shape of the output\<close>

text \<open>
  C1. Whenever the execution function of a tool returned by \<open>airweaveSearch\<close> succeeds,
  exactly one search was issued and answered, the output holds the response's results
  under the key \<open>results\<close> as they came, and it has a key \<open>answer\<close> exactly when the
  response's completion is present and not the empty string; then the answer is
  that string. Without it the output is the object with the single key \<open>results\<close>:
  the key \<open>answer\<close> is absent, not present with an empty or undefined value.
\<close>

theorem C1_results_and_conditional_answer:
  assumes "airweaveSearch remote env arg = Inr t"
      and "tool_execute t input trace = (Inr out, trace')"
  shows "\<exists>c response. trace' = trace @ [c] \<and> remote trace c = Inr response
           \<and> map_of out ''results'' = Some (JArray (results response))
           \<and> (has_key out ''answer'' \<longleftrightarrow> (\<exists>s. completion response = Some s \<and> s \<noteq> []))
           \<and> (\<forall>s. completion response = Some s \<and> s \<noteq> [] \<longrightarrow>
                 out = [(''results'', JArray (results response)), (''answer'', JString s)])
           \<and> (\<not> has_key out ''answer'' \<longrightarrow> out = [(''results'', JArray (results response))])"
proof -
  from assms(1) obtain client where
    ex: "tool_execute t = execute remote client (destructure env (or_default arg no_options))"
    using airweaveSearch_Inr by blast
  let ?cfg = "destructure env (or_default arg no_options)"
  from assms(2) ex have run: "execute remote client ?cfg input trace = (Inr out, trace')"
    by simp
  show ?thesis
  proof (cases "coalesce (collection input) (cfg_defaultCollection ?cfg)" rule: truthy_cases)
    case falsy
    with run show ?thesis by (simp add: execute_no_collection)
  next
    case (str cid)
    let ?c = "\<lparr>call_client = client, call_collection = cid,
                call_request = \<lparr>req_query = query input,
                      req_limit = or_default (limit input) (cfg_defaultLimit ?cfg),
                      generate_answer = cfg_generateAnswer ?cfg,
                      expand_query = cfg_expandQuery ?cfg,
                      req_rerank = cfg_rerank ?cfg\<rparr>\<rparr>"
    from run execute_collection [OF str, of remote client trace]
    have tr: "trace' = trace @ [?c]"
      and res: "(case remote trace ?c of Inl e \<Rightarrow> Inl (Remote e)
                 | Inr response \<Rightarrow> Inr ((''results'', JArray (results response))
                          # spread_answer (completion response))) = Inr out"
      by (simp_all add: Let_def)
    from res obtain response where
      ok: "remote trace ?c = Inr response"
      and out: "out = (''results'', JArray (results response)) # spread_answer (completion response)"
      by (auto split: sum.splits)
    have shape: "map_of out ''results'' = Some (JArray (results response))
           \<and> (has_key out ''answer'' \<longleftrightarrow> (\<exists>s. completion response = Some s \<and> s \<noteq> []))
           \<and> (\<forall>s. completion response = Some s \<and> s \<noteq> [] \<longrightarrow>
                 out = [(''results'', JArray (results response)), (''answer'', JString s)])
           \<and> (\<not> has_key out ''answer'' \<longrightarrow> out = [(''results'', JArray (results response))])"
    proof (cases "completion response")
      case None
      with out show ?thesis by (simp add: spread_answer_simps has_key_def)
    next
      case (Some s)
      with out show ?thesis by (cases "s = []") (simp_all add: spread_answer_simps has_key_def)
    qed
    with tr ok show ?thesis by blast
  qed
qed

text \<open>
  A run of C1: a service that answers with one result and the completion \<open>X\<close>.
\<close>

theorem C1_witness:
  "airweaveSearch (respond \<lparr>results = [JString ''r1''], completion = Some ''X''\<rparr> :: unit remote)
       (Some ''sk'') (Some (no_options\<lparr>defaultCollection := Some ''kb1''\<rparr>))
     = Inr (projr (airweaveSearch (respond \<lparr>results = [JString ''r1''], completion = Some ''X''\<rparr> :: unit remote)
       (Some ''sk'') (Some (no_options\<lparr>defaultCollection := Some ''kb1''\<rparr>))))
   \<and> fst (tool_execute (projr (airweaveSearch (respond \<lparr>results = [JString ''r1''], completion = Some ''X''\<rparr> :: unit remote)
       (Some ''sk'') (Some (no_options\<lparr>defaultCollection := Some ''kb1''\<rparr>))))
       \<lparr>query = ''q'', collection = None, limit = None\<rparr> [])
     = Inr [(''results'', JArray [JString ''r1'']), (''answer'', JString ''X'')]
   \<and> has_key [(''results'', JArray [JString ''r1'']), (''answer'', JString ''X'')] ''answer''"
proof -
  let ?remote = "respond \<lparr>results = [JString ''r1''], completion = Some ''X''\<rparr> :: unit remote"
  let ?arg = "Some (no_options\<lparr>defaultCollection := Some ''kb1''\<rparr>)"
  let ?t = "projr (airweaveSearch ?remote (Some ''sk'') ?arg)"
  let ?input = "\<lparr>query = ''q'', collection = None, limit = None\<rparr>"
  let ?out = "[(''results'', JArray [JString ''r1'']), (''answer'', JString ''X'')]"
  have built: "airweaveSearch ?remote (Some ''sk'') ?arg = Inr ?t"
    by (simp add: airweaveSearch_def no_options_def destructure_def)
  have run: "tool_execute ?t ?input [] = (Inr ?out, snd (tool_execute ?t ?input []))"
    by (simp add: airweaveSearch_def no_options_def destructure_def execute_def
          collections_search_def respond_def spread_answer_def)
  from C1_results_and_conditional_answer [OF built run]
  have "has_key ?out ''answer''"
    by (auto simp: respond_def)
  moreover from run have "fst (tool_execute ?t ?input []) = Inr ?out"
    by (metis fst_conv)
  ultimately show ?thesis using built by blast
qed

section \<open>What the schema accepts\<close>

lemma query_schema:
  "(\<exists>q. string_max 1000 (string_min 1 z_string) v = Inr q) \<longleftrightarrow> valid_query v"
  by (cases v) (auto simp: string_max_def string_min_def z_string_def valid_query_def Suc_le_eq)

lemma collection_schema:
  "(\<exists>c. optional z_string v = Inr c) \<longleftrightarrow> valid_collection v"
  by (cases v) (auto simp: optional_def z_string_def valid_collection_def)

lemma limit_schema:
  "(\<exists>l. optional (number_max 100 (number_min 1 z_number)) v = Inr l) \<longleftrightarrow> valid_limit v"
proof (cases v)
  case (JNumber n)
  then show ?thesis
    by (cases n) (auto simp: optional_def number_max_def number_min_def z_number_def valid_limit_def)
qed (auto simp: optional_def number_max_def number_min_def z_number_def valid_limit_def)

lemma inputSchema_accepts: "(\<exists>input. inputSchema raw = Inr input) \<longleftrightarrow> valid_input raw"
proof (cases raw)
  case (JObject ps)
  let ?q = "string_max 1000 (string_min 1 z_string) (get_prop ps ''query'')"
  let ?c = "optional z_string (get_prop ps ''collection'')"
  let ?l = "optional (number_max 100 (number_min 1 z_number)) (get_prop ps ''limit'')"
  have "(\<exists>input. inputSchema raw = Inr input) \<longleftrightarrow>
          (\<exists>q. ?q = Inr q) \<and> (\<exists>c. ?c = Inr c) \<and> (\<exists>l. ?l = Inr l)"
    using JObject by (auto simp: inputSchema_def describe_def Let_def split: sum.splits)
  then show ?thesis
    unfolding JObject valid_input_def query_schema collection_schema limit_schema by simp
qed (simp_all add: inputSchema_def valid_input_def)

text \<open>
  The contract in the specification's words is the stronger one: what it admits, the
  schema accepts.
\<close>

lemma spec_valid_input_accepted: "spec_valid_input raw \<Longrightarrow> valid_input raw"
  by (auto simp: spec_valid_input_def valid_input_def spec_valid_limit_def valid_limit_def
        split: js_value.splits js_number.splits)

text \<open>
  C6, amended. The schema of a built tool accepts an argument exactly when it is an
  object whose \<open>query\<close> is a string of length 1 to 1000, whose \<open>collection\<close> is
  absent or a string, and whose \<open>limit\<close> is absent or a number from 1 to 100, integer
  or not. An argument outside this contract (an empty query, a query longer than
  1000, a limit outside the interval) is rejected by the tool call with the trace of
  remote calls unchanged.
\<close>

theorem C6_schema_accepts_range:
  assumes "airweaveSearch remote env arg = Inr t"
  shows "((\<exists>input. tool_inputSchema t raw = Inr input) \<longleftrightarrow> valid_input raw)
       \<and> (\<not> valid_input raw \<longrightarrow> (\<exists>issues. call_tool t raw trace = (InvalidInput issues, trace)))"
proof -
  have schema: "tool_inputSchema t = inputSchema"
    using assms airweaveSearch_Inr by blast
  have "\<exists>issues. call_tool t raw trace = (InvalidInput issues, trace)" if "\<not> valid_input raw"
  proof -
    from that have "\<nexists>input. inputSchema raw = Inr input"
      by (simp add: inputSchema_accepts)
    then obtain issues where "inputSchema raw = Inl issues"
      by (cases "inputSchema raw") auto
    then show ?thesis by (simp add: call_tool_def schema)
  qed
  then show ?thesis by (simp add: schema inputSchema_accepts)
qed

lemma three_halves_not_integer: "\<not> is_integer (3/2)"
proof -
  have "\<lfloor>3/2::rat\<rfloor> = 1" by (rule floor_unique) simp_all
  then show ?thesis by (simp add: is_integer_def)
qed

text \<open>
  The claim C6 as the specification states it fails: the schema accepts the limit 1.5,
  which is in the interval and is no integer.
\<close>

theorem C6_counterexample:
  "inputSchema (JObject [(''query'', JString ''q''), (''limit'', JNumber (Num (3/2)))])
     = Inr \<lparr>query = ''q'', collection = None, limit = Some (Num (3/2))\<rparr>
   \<and> \<not> spec_valid_input (JObject [(''query'', JString ''q''), (''limit'', JNumber (Num (3/2)))])"
  by (simp add: inputSchema_def describe_def string_max_def string_min_def z_string_def
        optional_def number_max_def number_min_def z_number_def get_prop_def
        spec_valid_input_def spec_valid_limit_def three_halves_not_integer)

text \<open>
  A run of C6: the limit 101 is rejected before any call; the limit 1.5 is accepted.
\<close>

theorem C6_witness:
  "airweaveSearch (respond \<lparr>results = [], completion = None\<rparr> :: unit remote) (Some ''sk'') None
     = Inr (projr (airweaveSearch (respond \<lparr>results = [], completion = None\<rparr> :: unit remote) (Some ''sk'') None))
   \<and> \<not> valid_input (JObject [(''query'', JString ''q''), (''limit'', JNumber (Num 101))])
   \<and> (\<exists>issues. call_tool (projr (airweaveSearch (respond \<lparr>results = [], completion = None\<rparr> :: unit remote) (Some ''sk'') None))
         (JObject [(''query'', JString ''q''), (''limit'', JNumber (Num 101))]) []
       = (InvalidInput issues, []))
   \<and> valid_input (JObject [(''query'', JString ''q''), (''limit'', JNumber (Num (3/2)))])
   \<and> (\<exists>input. tool_inputSchema (projr (airweaveSearch (respond \<lparr>results = [], completion = None\<rparr> :: unit remote) (Some ''sk'') None))
         (JObject [(''query'', JString ''q''), (''limit'', JNumber (Num (3/2)))]) = Inr input)"
proof -
  let ?remote = "respond \<lparr>results = [], completion = None\<rparr> :: unit remote"
  let ?t = "projr (airweaveSearch ?remote (Some ''sk'') None)"
  have built: "airweaveSearch ?remote (Some ''sk'') None = Inr ?t"
    by (simp add: airweaveSearch_def no_options_def destructure_def)
  have bad: "\<not> valid_input (JObject [(''query'', JString ''q''), (''limit'', JNumber (Num 101))])"
    by (simp add: valid_input_def valid_limit_def valid_query_def valid_collection_def get_prop_def)
  have good: "valid_input (JObject [(''query'', JString ''q''), (''limit'', JNumber (Num (3/2)))])"
    by (simp add: valid_input_def valid_limit_def valid_query_def valid_collection_def get_prop_def)
  from C6_schema_accepts_range [OF built, of "JObject [(''query'', JString ''q''), (''limit'', JNumber (Num 101))]" "[]"] bad
  have rejected: "\<exists>issues. call_tool ?t (JObject [(''query'', JString ''q''), (''limit'', JNumber (Num 101))]) []
       = (InvalidInput issues, [])"
    by blast
  from C6_schema_accepts_range [OF built, of "JObject [(''query'', JString ''q''), (''limit'', JNumber (Num (3/2)))]" "[]"] good
  have "\<exists>input. tool_inputSchema ?t (JObject [(''query'', JString ''q''), (''limit'', JNumber (Num (3/2)))]) = Inr input"
    by blast
  with built bad good rejected show ?thesis by blast
qed

section \<open>Failures\<close>

text \<open>
  C3. When the call gives no collection and the options configure no default, the
  execution function of a built tool throws the adapter's own error, whose message
  tells the caller to pass a collection or to set the default, and the trace of remote
  calls is unchanged: no search is issued. The error is built by the adapter and is no
  failure of the remote service.
\<close>

theorem C3_missing_collection:
  assumes "airweaveSearch remote env arg = Inr t"
      and "collection input = None"
      and "defaultCollection (or_default arg no_options) = None"
  shows "tool_execute t input trace =
           (Inl (Error ''Collection is required. Pass collection in the query or set defaultCollection option.''),
            trace)
       \<and> (\<forall>e. fst (tool_execute t input trace) \<noteq> Inl (Remote e))"
  using assms(1)
proof (cases rule: tool_execute_cases [where input = input and trace = trace])
  case no_collection
  then show ?thesis by simp
next
  case (searched client cid c)
  with assms(2,3) show ?thesis by simp
qed

text \<open>
  A run of C3: a tool built with no options at all, called with a query only.
\<close>

theorem C3_witness:
  "airweaveSearch (respond \<lparr>results = [], completion = None\<rparr> :: unit remote) (Some ''sk'') None
     = Inr (projr (airweaveSearch (respond \<lparr>results = [], completion = None\<rparr> :: unit remote) (Some ''sk'') None))
   \<and> collection \<lparr>query = ''q'', collection = None, limit = None\<rparr> = None
   \<and> defaultCollection (or_default None no_options) = None
   \<and> tool_execute (projr (airweaveSearch (respond \<lparr>results = [], completion = None\<rparr> :: unit remote) (Some ''sk'') None))
        \<lparr>query = ''q'', collection = None, limit = None\<rparr> []
      = (Inl (Error ''Collection is required. Pass collection in the query or set defaultCollection option.''), [])"
proof -
  let ?remote = "respond \<lparr>results = [], completion = None\<rparr> :: unit remote"
  let ?t = "projr (airweaveSearch ?remote (Some ''sk'') None)"
  let ?input = "\<lparr>query = ''q'', collection = None, limit = None\<rparr>"
  have built: "airweaveSearch ?remote (Some ''sk'') None = Inr ?t"
    by (simp add: airweaveSearch_def no_options_def destructure_def)
  have no_call: "collection ?input = None" by simp
  have no_default: "defaultCollection (or_default None no_options) = None"
    by (simp add: no_options_def)
  from C3_missing_collection [OF built no_call no_default, of "[]"] built no_call no_default
  show ?thesis by blast
qed

text \<open>
  C9. A per-call collection that is the empty string makes the execution function throw
  the same error with no search issued, whatever default collection is configured:
  the empty string is not \<^verbatim>\<open>undefined\<close>, so \<^verbatim>\<open>??\<close> keeps it, and it is falsy, so
  the check rejects it.
\<close>

theorem C9_empty_collection_rejected:
  assumes "airweaveSearch remote env arg = Inr t"
      and "collection input = Some []"
  shows "tool_execute t input trace =
           (Inl (Error ''Collection is required. Pass collection in the query or set defaultCollection option.''),
            trace)"
  using assms(1)
proof (cases rule: tool_execute_cases [where input = input and trace = trace])
  case no_collection
  then show ?thesis by simp
next
  case (searched client cid c)
  with assms(2) show ?thesis by simp
qed

text \<open>A run of C9: the default collection \<open>kb1\<close> is configured and not used.\<close>

theorem C9_witness:
  "airweaveSearch (respond \<lparr>results = [], completion = None\<rparr> :: unit remote) (Some ''sk'')
       (Some (no_options\<lparr>defaultCollection := Some ''kb1''\<rparr>))
     = Inr (projr (airweaveSearch (respond \<lparr>results = [], completion = None\<rparr> :: unit remote) (Some ''sk'')
              (Some (no_options\<lparr>defaultCollection := Some ''kb1''\<rparr>))))
   \<and> collection \<lparr>query = ''q'', collection = Some '''', limit = None\<rparr> = Some []
   \<and> tool_execute (projr (airweaveSearch (respond \<lparr>results = [], completion = None\<rparr> :: unit remote) (Some ''sk'')
              (Some (no_options\<lparr>defaultCollection := Some ''kb1''\<rparr>))))
        \<lparr>query = ''q'', collection = Some '''', limit = None\<rparr> []
      = (Inl (Error ''Collection is required. Pass collection in the query or set defaultCollection option.''), [])"
proof -
  let ?remote = "respond \<lparr>results = [], completion = None\<rparr> :: unit remote"
  let ?arg = "Some (no_options\<lparr>defaultCollection := Some ''kb1''\<rparr>)"
  let ?t = "projr (airweaveSearch ?remote (Some ''sk'') ?arg)"
  let ?input = "\<lparr>query = ''q'', collection = Some '''', limit = None\<rparr>"
  have built: "airweaveSearch ?remote (Some ''sk'') ?arg = Inr ?t"
    by (simp add: airweaveSearch_def no_options_def destructure_def)
  have empty: "collection ?input = Some []" by simp
  from C9_empty_collection_rejected [OF built empty, of "[]"] built empty
  show ?thesis by blast
qed

text \<open>
  C8. One execution issues at most one search. When that search fails, the execution
  ends with exactly the failure the service gave, thrown on as it is, and with that one
  call in the trace: no second call, no output object.
\<close>

theorem C8_remote_failure_propagates:
  assumes "airweaveSearch remote env arg = Inr t"
  shows "\<exists>new. snd (tool_execute t input trace) = trace @ new \<and> length new \<le> 1
           \<and> (\<forall>c\<in>set new. \<forall>e. remote trace c = Inl e \<longrightarrow>
                 tool_execute t input trace = (Inl (Remote e), trace @ [c]))"
  using assms
proof (cases rule: tool_execute_cases [where input = input and trace = trace])
  case no_collection
  then have "snd (tool_execute t input trace) = trace @ []" by simp
  then show ?thesis by fastforce
next
  case (searched client cid c)
  then have "snd (tool_execute t input trace) = trace @ [c]" by simp
  moreover have "\<forall>e. remote trace c = Inl e \<longrightarrow>
                 tool_execute t input trace = (Inl (Remote e), trace @ [c])"
    using searched(5) by simp
  ultimately show ?thesis by fastforce
qed

text \<open>
  A run of C8 against the service that rejects its first call with \<open>503\<close> and would
  answer a second one: the execution throws \<open>503\<close> after a single call.
\<close>

theorem C8_witness:
  "airweaveSearch (flaky ''503'' \<lparr>results = [], completion = None\<rparr>) (Some ''sk'')
       (Some (no_options\<lparr>defaultCollection := Some ''kb1''\<rparr>))
     = Inr (projr (airweaveSearch (flaky ''503'' \<lparr>results = [], completion = None\<rparr>) (Some ''sk'')
              (Some (no_options\<lparr>defaultCollection := Some ''kb1''\<rparr>))))
   \<and> length (snd (tool_execute (projr (airweaveSearch (flaky ''503'' \<lparr>results = [], completion = None\<rparr>) (Some ''sk'')
              (Some (no_options\<lparr>defaultCollection := Some ''kb1''\<rparr>))))
        \<lparr>query = ''q'', collection = None, limit = None\<rparr> [])) = 1
   \<and> fst (tool_execute (projr (airweaveSearch (flaky ''503'' \<lparr>results = [], completion = None\<rparr>) (Some ''sk'')
              (Some (no_options\<lparr>defaultCollection := Some ''kb1''\<rparr>))))
        \<lparr>query = ''q'', collection = None, limit = None\<rparr> [])
      = Inl (Remote ''503'')"
proof -
  let ?remote = "flaky ''503'' \<lparr>results = [], completion = None\<rparr>"
  let ?arg = "Some (no_options\<lparr>defaultCollection := Some ''kb1''\<rparr>)"
  let ?t = "projr (airweaveSearch ?remote (Some ''sk'') ?arg)"
  let ?input = "\<lparr>query = ''q'', collection = None, limit = None\<rparr>"
  have built: "airweaveSearch ?remote (Some ''sk'') ?arg = Inr ?t"
    by (simp add: airweaveSearch_def no_options_def destructure_def)
  have one: "length (snd (tool_execute ?t ?input [])) = 1"
    by (simp add: airweaveSearch_def no_options_def destructure_def execute_def
          collections_search_def flaky_def Let_def)
  from C8_remote_failure_propagates [OF built, of ?input "[]"]
  obtain new where new: "snd (tool_execute ?t ?input []) = [] @ new"
    and fails: "\<forall>c\<in>set new. \<forall>e. ?remote [] c = Inl e \<longrightarrow>
                 tool_execute ?t ?input [] = (Inl (Remote e), [] @ [c])"
    by blast
  from one new obtain c where "new = [c]"
    by (cases new) auto
  moreover have "?remote [] c = Inl ''503''"
    by (simp add: flaky_def)
  ultimately have "tool_execute ?t ?input [] = (Inl (Remote ''503''), [c])"
    using fails by simp
  then have "fst (tool_execute ?t ?input []) = Inl (Remote ''503'')"
    by simp
  with built one show ?thesis by blast
qed

section \<open>What is sent to the service\<close>

text \<open>
  C2. Every search that an execution of a built tool issues carries the three flags
  fixed at construction: the option when it was given, else the default (false for
  \<open>generate_answer\<close>, true for \<open>expand_query\<close> and \<open>rerank\<close>). This holds for every
  parsed input, where one search is issued whenever the collection resolves, and for
  every raw argument that the framework hands to the tool, whatever keys it has.
\<close>

theorem C2_flags_fixed_at_construction:
  assumes "airweaveSearch remote env arg = Inr t"
  shows "(\<exists>new. snd (tool_execute t input trace) = trace @ new
            \<and> (truthy (coalesce (collection input) (defaultCollection (or_default arg no_options)))
                 \<longrightarrow> length new = 1)
            \<and> (\<forall>c\<in>set new.
                  generate_answer (call_request c) = or_default (generateAnswer (or_default arg no_options)) False
                \<and> expand_query (call_request c) = or_default (expandQuery (or_default arg no_options)) True
                \<and> req_rerank (call_request c) = or_default (rerank (or_default arg no_options)) True))
       \<and> (\<exists>new. snd (call_tool t raw trace) = trace @ new
            \<and> (\<forall>c\<in>set new.
                  generate_answer (call_request c) = or_default (generateAnswer (or_default arg no_options)) False
                \<and> expand_query (call_request c) = or_default (expandQuery (or_default arg no_options)) True
                \<and> req_rerank (call_request c) = or_default (rerank (or_default arg no_options)) True))"
proof -
  let ?flags = "\<lambda>c. generate_answer (call_request c) = or_default (generateAnswer (or_default arg no_options)) False
                \<and> expand_query (call_request c) = or_default (expandQuery (or_default arg no_options)) True
                \<and> req_rerank (call_request c) = or_default (rerank (or_default arg no_options)) True"
  have typed: "\<exists>new. snd (tool_execute t i trace) = trace @ new
            \<and> (truthy (coalesce (collection i) (defaultCollection (or_default arg no_options)))
                 \<longrightarrow> length new = 1)
            \<and> (\<forall>c\<in>set new. ?flags c)" for i
    using assms
  proof (cases rule: tool_execute_cases [where input = i and trace = trace])
    case no_collection
    then have "snd (tool_execute t i trace) = trace @ []" by simp
    with no_collection(1) show ?thesis by fastforce
  next
    case (searched client cid c)
    then have "snd (tool_execute t i trace) = trace @ [c]" and "?flags c" by simp_all
    then show ?thesis by fastforce
  qed
  have schema: "tool_inputSchema t = inputSchema"
    using assms airweaveSearch_Inr by blast
  have "\<exists>new. snd (call_tool t raw trace) = trace @ new \<and> (\<forall>c\<in>set new. ?flags c)"
  proof (cases "inputSchema raw")
    case (Inl issues)
    then have "snd (call_tool t raw trace) = trace @ []"
      by (simp add: call_tool_trace [OF schema])
    then show ?thesis by fastforce
  next
    case (Inr i)
    then have "snd (call_tool t raw trace) = snd (tool_execute t i trace)"
      by (simp add: call_tool_trace [OF schema])
    with typed [of i] show ?thesis by auto
  qed
  with typed [of input] show ?thesis by blast
qed

text \<open>
  A run of C2: the tool is built with the three flags set against their defaults, and
  the raw argument carries keys named like the flags with the opposite values. The one
  search issued has the flags of the construction.
\<close>

theorem C2_witness:
  "airweaveSearch (respond \<lparr>results = [], completion = None\<rparr> :: unit remote) (Some ''sk'')
       (Some (no_options\<lparr>defaultCollection := Some ''kb1'', generateAnswer := Some True,
                          expandQuery := Some False, rerank := Some False\<rparr>))
     = Inr (projr (airweaveSearch (respond \<lparr>results = [], completion = None\<rparr> :: unit remote) (Some ''sk'')
       (Some (no_options\<lparr>defaultCollection := Some ''kb1'', generateAnswer := Some True,
                          expandQuery := Some False, rerank := Some False\<rparr>))))
   \<and> map (\<lambda>c. (generate_answer (call_request c), expand_query (call_request c), req_rerank (call_request c)))
        (snd (call_tool (projr (airweaveSearch (respond \<lparr>results = [], completion = None\<rparr> :: unit remote) (Some ''sk'')
            (Some (no_options\<lparr>defaultCollection := Some ''kb1'', generateAnswer := Some True,
                          expandQuery := Some False, rerank := Some False\<rparr>))))
          (JObject [(''query'', JString ''q''), (''generate_answer'', JBoolean False),
                    (''expand_query'', JBoolean True), (''rerank'', JBoolean True),
                    (''generateAnswer'', JBoolean False)]) []))
      = [(True, False, False)]"
proof -
  let ?remote = "respond \<lparr>results = [], completion = None\<rparr> :: unit remote"
  let ?arg = "Some (no_options\<lparr>defaultCollection := Some ''kb1'', generateAnswer := Some True,
                          expandQuery := Some False, rerank := Some False\<rparr>)"
  let ?t = "projr (airweaveSearch ?remote (Some ''sk'') ?arg)"
  let ?raw = "JObject [(''query'', JString ''q''), (''generate_answer'', JBoolean False),
                    (''expand_query'', JBoolean True), (''rerank'', JBoolean True),
                    (''generateAnswer'', JBoolean False)]"
  have built: "airweaveSearch ?remote (Some ''sk'') ?arg = Inr ?t"
    by (simp add: airweaveSearch_def no_options_def destructure_def)
  have parsed: "inputSchema ?raw = Inr \<lparr>query = ''q'', collection = None, limit = None\<rparr>"
    by (simp add: inputSchema_def describe_def string_max_def string_min_def z_string_def
          optional_def get_prop_def)
  have one: "length (snd (call_tool ?t ?raw [])) = 1"
    by (simp add: call_tool_def parsed airweaveSearch_def no_options_def destructure_def
          execute_def collections_search_def respond_def Let_def)
  from C2_flags_fixed_at_construction [OF built, of _ "[]" ?raw]
  obtain new where new: "snd (call_tool ?t ?raw []) = [] @ new"
    and flags: "\<forall>c\<in>set new.
                  generate_answer (call_request c) = or_default (generateAnswer (or_default ?arg no_options)) False
                \<and> expand_query (call_request c) = or_default (expandQuery (or_default ?arg no_options)) True
                \<and> req_rerank (call_request c) = or_default (rerank (or_default ?arg no_options)) True"
    by blast
  from one new obtain c where c: "new = [c]"
    by (cases new) auto
  with flags have "generate_answer (call_request c) = True \<and> expand_query (call_request c) = False
       \<and> req_rerank (call_request c) = False"
    by (simp add: no_options_def)
  with new c built show ?thesis by simp
qed

text \<open>
  C10. The bounds 1 and 100 belong to the schema of the per-call limit only. Whatever
  number the option \<open>defaultLimit\<close> holds, a tool is built exactly as with any other
  value, and every search of an execution that gives no per-call limit carries that
  number as its limit; one such search is issued whenever the collection resolves.
\<close>

theorem C10_default_limit_unvalidated:
  assumes "airweaveSearch remote env arg = Inr t"
      and "defaultLimit (or_default arg no_options) = Some dl"
      and "limit input = None"
  shows "(\<exists>new. snd (tool_execute t input trace) = trace @ new
            \<and> (truthy (coalesce (collection input) (defaultCollection (or_default arg no_options)))
                 \<longrightarrow> length new = 1)
            \<and> (\<forall>c\<in>set new. req_limit (call_request c) = dl))
       \<and> (\<forall>x. \<exists>t'. airweaveSearch remote env (Some ((or_default arg no_options)\<lparr>defaultLimit := x\<rparr>)) = Inr t')"
proof -
  have sent: "\<exists>new. snd (tool_execute t input trace) = trace @ new
            \<and> (truthy (coalesce (collection input) (defaultCollection (or_default arg no_options)))
                 \<longrightarrow> length new = 1)
            \<and> (\<forall>c\<in>set new. req_limit (call_request c) = dl)"
    using assms(1)
  proof (cases rule: tool_execute_cases [where input = input and trace = trace])
    case no_collection
    then have "snd (tool_execute t input trace) = trace @ []" by simp
    with no_collection(1) show ?thesis by fastforce
  next
    case (searched client cid c)
    with assms(2,3) have "snd (tool_execute t input trace) = trace @ [c]"
      and "req_limit (call_request c) = dl" by simp_all
    then show ?thesis by fastforce
  qed
  from assms(1) obtain key where key: "coalesce (apiKey (or_default arg no_options)) env = Some key"
    and "key \<noteq> []"
    using airweaveSearch_Inr by blast
  then have "\<exists>t'. airweaveSearch remote env (Some ((or_default arg no_options)\<lparr>defaultLimit := x\<rparr>)) = Inr t'" for x
    by (simp add: airweaveSearch_def destructure_def Let_def)
  with sent show ?thesis by blast
qed

text \<open>A run of C10: the default limit 500 is sent as it is.\<close>

theorem C10_witness:
  "airweaveSearch (respond \<lparr>results = [], completion = None\<rparr> :: unit remote) (Some ''sk'')
       (Some (no_options\<lparr>defaultCollection := Some ''kb1'', defaultLimit := Some (Num 500)\<rparr>))
     = Inr (projr (airweaveSearch (respond \<lparr>results = [], completion = None\<rparr> :: unit remote) (Some ''sk'')
       (Some (no_options\<lparr>defaultCollection := Some ''kb1'', defaultLimit := Some (Num 500)\<rparr>))))
   \<and> defaultLimit (or_default (Some (no_options\<lparr>defaultCollection := Some ''kb1'', defaultLimit := Some (Num 500)\<rparr>)) no_options)
       = Some (Num 500)
   \<and> limit \<lparr>query = ''q'', collection = None, limit = None\<rparr> = None
   \<and> map (\<lambda>c. req_limit (call_request c))
        (snd (tool_execute (projr (airweaveSearch (respond \<lparr>results = [], completion = None\<rparr> :: unit remote) (Some ''sk'')
            (Some (no_options\<lparr>defaultCollection := Some ''kb1'', defaultLimit := Some (Num 500)\<rparr>))))
          \<lparr>query = ''q'', collection = None, limit = None\<rparr> []))
      = [Num 500]"
proof -
  let ?remote = "respond \<lparr>results = [], completion = None\<rparr> :: unit remote"
  let ?arg = "Some (no_options\<lparr>defaultCollection := Some ''kb1'', defaultLimit := Some (Num 500)\<rparr>)"
  let ?t = "projr (airweaveSearch ?remote (Some ''sk'') ?arg)"
  let ?input = "\<lparr>query = ''q'', collection = None, limit = None\<rparr>"
  have built: "airweaveSearch ?remote (Some ''sk'') ?arg = Inr ?t"
    by (simp add: airweaveSearch_def no_options_def destructure_def)
  have dl: "defaultLimit (or_default ?arg no_options) = Some (Num 500)"
    by (simp add: no_options_def)
  have no_limit: "limit ?input = None" by simp
  have resolves: "truthy (coalesce (collection ?input) (defaultCollection (or_default ?arg no_options)))"
    by (simp add: no_options_def)
  from C10_default_limit_unvalidated [OF built dl no_limit, of "[]"] resolves
  obtain new where new: "snd (tool_execute ?t ?input []) = [] @ new" and "length new = 1"
    and lim: "\<forall>c\<in>set new. req_limit (call_request c) = Num 500"
    by blast
  then obtain c where "new = [c]"
    by (cases new) auto
  with new lim have "map (\<lambda>c. req_limit (call_request c)) (snd (tool_execute ?t ?input [])) = [Num 500]"
    by simp
  with built dl no_limit show ?thesis by blast
qed

section \<open>The credential\<close>

text \<open>
  C4. When the option \<open>apiKey\<close> is absent or empty and the environment holds no key,
  \<open>airweaveSearch\<close> throws at construction the adapter's own error, whose message
  names the environment variable and the option; no tool exists, so nothing can be
  sent. An explicit key wins over the environment: with the option given, the
  environment value has no effect on the result, and when the option is not empty the
  tool is built and every search it issues comes from a client bound to that key.
\<close>

theorem C4_credential_resolution:
  assumes "options = or_default arg no_options"
  shows "((apiKey options = None \<or> apiKey options = Some []) \<and> env = None \<longrightarrow>
            airweaveSearch remote env arg =
              Inl (Error ''Airweave API key is required. Set AIRWEAVE_API_KEY environment variable or pass apiKey option.''))
       \<and> (\<forall>key. apiKey options = Some key \<longrightarrow>
             airweaveSearch remote env arg = airweaveSearch remote env' arg
           \<and> (key \<noteq> [] \<longrightarrow>
                (\<exists>t. airweaveSearch remote env arg = Inr t
                   \<and> (\<forall>input trace. \<exists>new. snd (tool_execute t input trace) = trace @ new
                         \<and> (\<forall>c\<in>set new. client_apiKey (call_client c) = key)))))"
proof -
  have missing: "airweaveSearch remote env arg =
      Inl (Error ''Airweave API key is required. Set AIRWEAVE_API_KEY environment variable or pass apiKey option.'')"
    if "apiKey options = None \<or> apiKey options = Some []" and "env = None"
    using that assms by (auto simp: airweaveSearch_def destructure_def Let_def)
  have explicit: "airweaveSearch remote env arg = airweaveSearch remote env' arg
           \<and> (key \<noteq> [] \<longrightarrow>
                (\<exists>t. airweaveSearch remote env arg = Inr t
                   \<and> (\<forall>input trace. \<exists>new. snd (tool_execute t input trace) = trace @ new
                         \<and> (\<forall>c\<in>set new. client_apiKey (call_client c) = key))))"
    if given: "apiKey options = Some key" for key
  proof -
    have same: "airweaveSearch remote env arg = airweaveSearch remote env' arg"
      using given assms by (simp add: airweaveSearch_def destructure_def Let_def)
    have "\<exists>t. airweaveSearch remote env arg = Inr t
                   \<and> (\<forall>input trace. \<exists>new. snd (tool_execute t input trace) = trace @ new
                         \<and> (\<forall>c\<in>set new. client_apiKey (call_client c) = key))"
      if "key \<noteq> []"
    proof -
      from given that assms obtain t where built: "airweaveSearch remote env arg = Inr t"
        by (simp add: airweaveSearch_def destructure_def Let_def)
      have "\<exists>new. snd (tool_execute t input trace) = trace @ new
                         \<and> (\<forall>c\<in>set new. client_apiKey (call_client c) = key)" for input trace
        using built
      proof (cases rule: tool_execute_cases [where input = input and trace = trace])
        case no_collection
        then have "snd (tool_execute t input trace) = trace @ []" by simp
        then show ?thesis by fastforce
      next
        case (searched client cid c)
        with given assms have "snd (tool_execute t input trace) = trace @ [c]"
          and "client_apiKey (call_client c) = key" by simp_all
        then show ?thesis by fastforce
      qed
      with built show ?thesis by blast
    qed
    with same show ?thesis by blast
  qed
  from missing explicit show ?thesis by blast
qed

text \<open>
  Two runs of C4: construction without options and without an environment key throws;
  with the option \<open>explicit\<close> and the environment key \<open>ambient\<close>, the search comes from
  a client bound to \<open>explicit\<close>.
\<close>

theorem C4_witness:
  "airweaveSearch (respond \<lparr>results = [], completion = None\<rparr> :: unit remote) None None
     = Inl (Error ''Airweave API key is required. Set AIRWEAVE_API_KEY environment variable or pass apiKey option.'')
   \<and> map (\<lambda>c. client_apiKey (call_client c))
        (snd (tool_execute (projr (airweaveSearch (respond \<lparr>results = [], completion = None\<rparr> :: unit remote)
               (Some ''ambient'') (Some (no_options\<lparr>apiKey := Some ''explicit''\<rparr>))))
          \<lparr>query = ''q'', collection = Some ''kb1'', limit = None\<rparr> []))
      = [''explicit'']"
proof -
  let ?remote = "respond \<lparr>results = [], completion = None\<rparr> :: unit remote"
  let ?arg = "Some (no_options\<lparr>apiKey := Some ''explicit''\<rparr>)"
  let ?t = "projr (airweaveSearch ?remote (Some ''ambient'') ?arg)"
  let ?input = "\<lparr>query = ''q'', collection = Some ''kb1'', limit = None\<rparr>"
  have absent: "(apiKey (or_default None no_options) = None
                  \<or> apiKey (or_default None no_options) = Some []) \<and> (None :: string option) = None"
    by (simp add: no_options_def)
  from C4_credential_resolution [where arg = None and env = None and remote = ?remote, OF refl]
  have "(apiKey (or_default None no_options) = None
           \<or> apiKey (or_default None no_options) = Some []) \<and> (None :: string option) = None \<longrightarrow>
        airweaveSearch ?remote None None
     = Inl (Error ''Airweave API key is required. Set AIRWEAVE_API_KEY environment variable or pass apiKey option.'')"
    by (rule conjunct1)
  from this absent have throws: "airweaveSearch ?remote None None
     = Inl (Error ''Airweave API key is required. Set AIRWEAVE_API_KEY environment variable or pass apiKey option.'')"
    by (rule mp)
  have given: "apiKey (or_default ?arg no_options) = Some ''explicit''"
    by simp
  have filled: "''explicit'' \<noteq> []"
    by simp
  from C4_credential_resolution [where arg = ?arg and env = "Some ''ambient''" and remote = ?remote, OF refl]
  have "\<forall>key. apiKey (or_default ?arg no_options) = Some key \<longrightarrow>
             airweaveSearch ?remote (Some ''ambient'') ?arg = airweaveSearch ?remote None ?arg
           \<and> (key \<noteq> [] \<longrightarrow>
                (\<exists>t. airweaveSearch ?remote (Some ''ambient'') ?arg = Inr t
                   \<and> (\<forall>input trace. \<exists>new. snd (tool_execute t input trace) = trace @ new
                         \<and> (\<forall>c\<in>set new. client_apiKey (call_client c) = key))))"
    by (rule conjunct2)
  with given filled obtain t where built: "airweaveSearch ?remote (Some ''ambient'') ?arg = Inr t"
    and keyed: "\<forall>input trace. \<exists>new. snd (tool_execute t input trace) = trace @ new
                         \<and> (\<forall>c\<in>set new. client_apiKey (call_client c) = ''explicit'')"
    by blast
  from built have t: "t = ?t"
    by simp
  from keyed obtain new where new: "snd (tool_execute t ?input []) = [] @ new"
    and key: "\<forall>c\<in>set new. client_apiKey (call_client c) = ''explicit''"
    by blast
  have "length (snd (tool_execute ?t ?input [])) = 1"
    by (simp add: airweaveSearch_def no_options_def destructure_def execute_def
          collections_search_def respond_def Let_def)
  with new t obtain c where "new = [c]"
    by (cases new) auto
  with new key t have "map (\<lambda>c. client_apiKey (call_client c)) (snd (tool_execute ?t ?input [])) = [''explicit'']"
    by simp
  with throws show ?thesis by (rule conjI)
qed

section \<open>The collection\<close>

text \<open>
  C5. When a default collection is configured and the call gives a collection of its
  own, every search of that execution goes to the per-call collection, and one search
  is issued when that collection is not empty. The default is untouched: a later
  execution of the same tool that gives no collection searches the default.
\<close>

theorem C5_per_call_collection_overrides:
  assumes "airweaveSearch remote env arg = Inr t"
      and "defaultCollection (or_default arg no_options) = Some d"
      and "collection input = Some c"
  shows "(\<exists>new. snd (tool_execute t input trace) = trace @ new
            \<and> (c \<noteq> [] \<longrightarrow> length new = 1)
            \<and> (\<forall>x\<in>set new. call_collection x = c))
       \<and> (collection later = None \<and> d \<noteq> [] \<longrightarrow>
            (\<exists>x. snd (tool_execute t later (snd (tool_execute t input trace)))
                    = snd (tool_execute t input trace) @ [x]
                \<and> call_collection x = d))"
proof -
  have first: "\<exists>new. snd (tool_execute t input trace) = trace @ new
            \<and> (c \<noteq> [] \<longrightarrow> length new = 1)
            \<and> (\<forall>x\<in>set new. call_collection x = c)"
    using assms(1)
  proof (cases rule: tool_execute_cases [where input = input and trace = trace])
    case no_collection
    with assms(3) have "snd (tool_execute t input trace) = trace @ []" and "c = []"
      by simp_all
    then show ?thesis by fastforce
  next
    case (searched client cid x)
    with assms(3) have "snd (tool_execute t input trace) = trace @ [x]" and "call_collection x = c"
      by simp_all
    then show ?thesis by fastforce
  qed
  have second: "\<exists>x. snd (tool_execute t later trace') = trace' @ [x] \<and> call_collection x = d"
    if "collection later = None" and "d \<noteq> []" for trace'
    using assms(1)
  proof (cases rule: tool_execute_cases [where input = later and trace = trace'])
    case no_collection
    with that assms(2) show ?thesis by simp
  next
    case (searched client cid x)
    with that assms(2) have "snd (tool_execute t later trace') = trace' @ [x]"
      and "call_collection x = d" by simp_all
    then show ?thesis by blast
  qed
  from first second show ?thesis by blast
qed

text \<open>
  A run of C5: the default is \<open>kb1\<close>, the first call names \<open>other\<close>, the second names
  nothing. The two searches go to \<open>other\<close> and then to \<open>kb1\<close>.
\<close>

theorem C5_witness:
  "airweaveSearch (respond \<lparr>results = [], completion = None\<rparr> :: unit remote) (Some ''sk'')
       (Some (no_options\<lparr>defaultCollection := Some ''kb1''\<rparr>))
     = Inr (projr (airweaveSearch (respond \<lparr>results = [], completion = None\<rparr> :: unit remote) (Some ''sk'')
       (Some (no_options\<lparr>defaultCollection := Some ''kb1''\<rparr>))))
   \<and> map call_collection
        (snd (tool_execute (projr (airweaveSearch (respond \<lparr>results = [], completion = None\<rparr> :: unit remote) (Some ''sk'')
                  (Some (no_options\<lparr>defaultCollection := Some ''kb1''\<rparr>))))
               \<lparr>query = ''q2'', collection = None, limit = None\<rparr>
          (snd (tool_execute (projr (airweaveSearch (respond \<lparr>results = [], completion = None\<rparr> :: unit remote) (Some ''sk'')
                  (Some (no_options\<lparr>defaultCollection := Some ''kb1''\<rparr>))))
               \<lparr>query = ''q1'', collection = Some ''other'', limit = None\<rparr> []))))
      = [''other'', ''kb1'']"
proof -
  let ?remote = "respond \<lparr>results = [], completion = None\<rparr> :: unit remote"
  let ?arg = "Some (no_options\<lparr>defaultCollection := Some ''kb1''\<rparr>)"
  let ?t = "projr (airweaveSearch ?remote (Some ''sk'') ?arg)"
  let ?first = "\<lparr>query = ''q1'', collection = Some ''other'', limit = None\<rparr>"
  let ?later = "\<lparr>query = ''q2'', collection = None, limit = None\<rparr>"
  have built: "airweaveSearch ?remote (Some ''sk'') ?arg = Inr ?t"
    by (simp add: airweaveSearch_def no_options_def destructure_def)
  have dflt: "defaultCollection (or_default ?arg no_options) = Some ''kb1''"
    by (simp add: no_options_def)
  have own: "collection ?first = Some ''other''" by simp
  have filled: "''other'' \<noteq> []" by simp
  have later: "collection ?later = None \<and> ''kb1'' \<noteq> []" by simp
  note run = C5_per_call_collection_overrides [OF built dflt own, of "[]" ?later]
  from run have "\<exists>new. snd (tool_execute ?t ?first []) = [] @ new
            \<and> (''other'' \<noteq> [] \<longrightarrow> length new = 1)
            \<and> (\<forall>x\<in>set new. call_collection x = ''other'')"
    by (rule conjunct1)
  with filled obtain new where new: "snd (tool_execute ?t ?first []) = [] @ new"
    and "length new = 1" and there: "\<forall>y\<in>set new. call_collection y = ''other''"
    by blast
  then obtain y where y: "new = [y]"
    by (cases new) auto
  from run have "collection ?later = None \<and> ''kb1'' \<noteq> [] \<longrightarrow>
            (\<exists>x. snd (tool_execute ?t ?later (snd (tool_execute ?t ?first [])))
                    = snd (tool_execute ?t ?first []) @ [x]
                \<and> call_collection x = ''kb1'')"
    by (rule conjunct2)
  from this later have "\<exists>x. snd (tool_execute ?t ?later (snd (tool_execute ?t ?first [])))
                    = snd (tool_execute ?t ?first []) @ [x]
                \<and> call_collection x = ''kb1''"
    by (rule mp)
  then obtain x where next_call: "snd (tool_execute ?t ?later (snd (tool_execute ?t ?first [])))
                    = snd (tool_execute ?t ?first []) @ [x]"
    and dx: "call_collection x = ''kb1''"
    by blast
  from new y have "snd (tool_execute ?t ?first []) = [y]" by simp
  with next_call have "snd (tool_execute ?t ?later (snd (tool_execute ?t ?first []))) = [y, x]"
    by simp
  with there y dx
  have "map call_collection (snd (tool_execute ?t ?later (snd (tool_execute ?t ?first []))))
          = [''other'', ''kb1'']"
    by simp
  with built show ?thesis by (rule conjI)
qed

section \<open>The end-to-end scenario\<close>

text \<open>
  C7. A tool is built from the options \<open>defaultCollection = kb1\<close> and
  \<open>defaultLimit = 10\<close>, with the key taken from the environment, and executed on the
  query \<open>budget\<close>. The one search it issues goes to \<open>kb1\<close> with the query \<open>budget\<close>,
  the limit 10 and the flags false, true, true. When the service answers that search
  with the single item of the scenario and no completion, the output is the object
  with the key \<open>results\<close> holding that item and no key \<open>answer\<close>, for the direct
  execution and for the call through the schema alike. Leaving \<open>defaultLimit\<close> out, or
  giving the three flags as false, true, true, builds the same tool.
\<close>

theorem C7_end_to_end_scenario:
  assumes "key \<noteq> []"
      and "remote trace (scenario_call key) = Inr \<lparr>results = [scenario_item], completion = None\<rparr>"
  shows "\<exists>t. airweaveSearch remote (Some key)
               (Some (no_options\<lparr>defaultCollection := Some ''kb1'', defaultLimit := Some (Num 10)\<rparr>)) = Inr t
           \<and> tool_execute t \<lparr>query = ''budget'', collection = None, limit = None\<rparr> trace
               = (Inr [(''results'', JArray [scenario_item])], trace @ [scenario_call key])
           \<and> call_tool t (JObject [(''query'', JString ''budget'')]) trace
               = (Output [(''results'', JArray [scenario_item])], trace @ [scenario_call key])
           \<and> \<not> has_key [(''results'', JArray [scenario_item])] ''answer''
           \<and> airweaveSearch remote (Some key) (Some (no_options\<lparr>defaultCollection := Some ''kb1''\<rparr>)) = Inr t
           \<and> airweaveSearch remote (Some key)
               (Some (no_options\<lparr>defaultCollection := Some ''kb1'', defaultLimit := Some (Num 10),
                  generateAnswer := Some False, expandQuery := Some True, rerank := Some True\<rparr>)) = Inr t"
proof -
  let ?opts = "no_options\<lparr>defaultCollection := Some ''kb1'', defaultLimit := Some (Num 10)\<rparr>"
  let ?input = "\<lparr>query = ''budget'', collection = None, limit = None\<rparr>"
  let ?out = "[(''results'', JArray [scenario_item])]"
  let ?client = "\<lparr>client_apiKey = key, client_baseUrl = None,
                  frameworkName = ''vercel-ai-sdk'', frameworkVersion = ''1.0.0''\<rparr>"
  let ?cfg = "destructure (Some key) ?opts"
  let ?t = "projr (airweaveSearch remote (Some key) (Some ?opts))"
  from assms(1) have built: "airweaveSearch remote (Some key) (Some ?opts) = Inr ?t"
    by (simp add: airweaveSearch_def destructure_def no_options_def)
  from assms(1) have ex: "tool_execute ?t = execute remote ?client ?cfg"
    by (simp add: airweaveSearch_def destructure_def no_options_def)
  from assms(1) have schema: "tool_inputSchema ?t = inputSchema"
    by (simp add: airweaveSearch_def destructure_def no_options_def)
  have resolved: "coalesce (collection ?input) (cfg_defaultCollection ?cfg) = Some ''kb1''"
    by (simp add: destructure_def no_options_def)
  have sent: "\<lparr>call_client = ?client, call_collection = ''kb1'',
                call_request = \<lparr>req_query = query ?input,
                      req_limit = or_default (limit ?input) (cfg_defaultLimit ?cfg),
                      generate_answer = cfg_generateAnswer ?cfg,
                      expand_query = cfg_expandQuery ?cfg,
                      req_rerank = cfg_rerank ?cfg\<rparr>\<rparr> = scenario_call key"
    by (simp add: destructure_def no_options_def scenario_call_def)
  have named: "''kb1'' \<noteq> []" by simp
  have "execute remote ?client ?cfg ?input trace = (Inr ?out, trace @ [scenario_call key])"
    unfolding execute_collection [OF resolved named, of remote ?client trace] Let_def sent
    using assms(2) by (simp add: spread_answer_def)
  with ex have run: "tool_execute ?t ?input trace = (Inr ?out, trace @ [scenario_call key])"
    by simp
  have parsed: "inputSchema (JObject [(''query'', JString ''budget'')]) = Inr ?input"
    by (simp add: inputSchema_def describe_def string_max_def string_min_def z_string_def
          optional_def get_prop_def)
  have called: "call_tool ?t (JObject [(''query'', JString ''budget'')]) trace
               = (Output ?out, trace @ [scenario_call key])"
    by (simp add: call_tool_def schema parsed run)
  have absent: "\<not> has_key ?out ''answer''"
    by (simp add: has_key_def)
  from assms(1) have omitted: "airweaveSearch remote (Some key) (Some (no_options\<lparr>defaultCollection := Some ''kb1''\<rparr>))
      = airweaveSearch remote (Some key) (Some ?opts)"
    by (simp add: airweaveSearch_def destructure_def no_options_def)
  from assms(1) have explicit: "airweaveSearch remote (Some key)
               (Some (no_options\<lparr>defaultCollection := Some ''kb1'', defaultLimit := Some (Num 10),
                  generateAnswer := Some False, expandQuery := Some True, rerank := Some True\<rparr>))
      = airweaveSearch remote (Some key) (Some ?opts)"
    by (simp add: airweaveSearch_def destructure_def no_options_def)
  from built run called absent omitted explicit show ?thesis
    by (intro exI [of _ ?t] conjI) simp_all
qed

text \<open>
  A run of C7 with the key \<open>sk\<close> against the service that always answers with the
  item of the scenario.
\<close>

theorem C7_witness:
  "''sk'' \<noteq> []
   \<and> (respond \<lparr>results = [scenario_item], completion = None\<rparr> :: unit remote) [] (scenario_call ''sk'')
       = Inr \<lparr>results = [scenario_item], completion = None\<rparr>
   \<and> tool_execute (projr (airweaveSearch (respond \<lparr>results = [scenario_item], completion = None\<rparr> :: unit remote)
          (Some ''sk'') (Some (no_options\<lparr>defaultCollection := Some ''kb1'', defaultLimit := Some (Num 10)\<rparr>))))
        \<lparr>query = ''budget'', collection = None, limit = None\<rparr> []
      = (Inr [(''results'', JArray [scenario_item])], [scenario_call ''sk''])"
proof -
  let ?remote = "respond \<lparr>results = [scenario_item], completion = None\<rparr> :: unit remote"
  let ?arg = "Some (no_options\<lparr>defaultCollection := Some ''kb1'', defaultLimit := Some (Num 10)\<rparr>)"
  have filled: "''sk'' \<noteq> []" by simp
  have answers: "?remote [] (scenario_call ''sk'') = Inr \<lparr>results = [scenario_item], completion = None\<rparr>"
    by (simp add: respond_def)
  from C7_end_to_end_scenario [where key = "''sk''" and remote = ?remote and trace = "[]", OF filled answers]
  obtain t where built: "airweaveSearch ?remote (Some ''sk'') ?arg = Inr t"
    and run: "tool_execute t \<lparr>query = ''budget'', collection = None, limit = None\<rparr> []
               = (Inr [(''results'', JArray [scenario_item])], [] @ [scenario_call ''sk''])"
    by blast
  from built have "t = projr (airweaveSearch ?remote (Some ''sk'') ?arg)"
    by simp
  with run have "tool_execute (projr (airweaveSearch ?remote (Some ''sk'') ?arg))
        \<lparr>query = ''budget'', collection = None, limit = None\<rparr> []
      = (Inr [(''results'', JArray [scenario_item])], [scenario_call ''sk''])"
    by simp
  with filled answers show ?thesis by (intro conjI)
qed

end
